theory Spec2Isabelle
  imports Main
begin

section \<open>Routing engine: express fee bands\<close>

text \<open>
  \<^verbatim>\<open>routing-service.ts\<close>: \<^verbatim>\<open>PaymentSpeed\<close>, \<^verbatim>\<open>EXPRESS_FEE_BANDS\<close> and
  \<^verbatim>\<open>PaymentRoutingService.calculateFee\<close>. Amounts are integer cents.
\<close>

datatype PaymentSpeed = standard | instant

record fee_band =
  minCents :: int
  maxCents :: int
  feeCents :: int

definition EXPRESS_FEE_BANDS :: "fee_band list" where
  "EXPRESS_FEE_BANDS =
    [\<lparr>minCents = 10000, maxCents = 50000, feeCents = 299\<rparr>,
     \<lparr>minCents = 50001, maxCents = 200000, feeCents = 499\<rparr>,
     \<lparr>minCents = 200001, maxCents = 500000, feeCents = 799\<rparr>,
     \<lparr>minCents = 500001, maxCents = 1000000, feeCents = 999\<rparr>,
     \<lparr>minCents = 1000001, maxCents = 2500000, feeCents = 1499\<rparr>,
     \<lparr>minCents = 2500001, maxCents = 5000000, feeCents = 1999\<rparr>]"

text \<open>The \<^verbatim>\<open>for (const band of EXPRESS_FEE_BANDS)\<close> loop: the first band containing the amount.\<close>

fun findBand :: "int \<Rightarrow> fee_band list \<Rightarrow> int option" where
  "findBand amountCents [] = None"
| "findBand amountCents (band # bands) =
     (if amountCents \<ge> minCents band \<and> amountCents \<le> maxCents band
      then Some (feeCents band)
      else findBand amountCents bands)"

text \<open>
  After the loop: below the first band's minimum the first band's fee, otherwise the last
  band's fee (\<^verbatim>\<open>lastBand?.feeCents ?? 1999\<close>; 1999 only for an empty table).
\<close>

definition outsideBands :: "int \<Rightarrow> fee_band list \<Rightarrow> int" where
  "outsideBands amountCents bands =
     (case bands of
        [] \<Rightarrow> 1999
      | firstBand # _ \<Rightarrow>
          if amountCents < minCents firstBand then feeCents firstBand
          else feeCents (last bands))"

definition calculateFee :: "PaymentSpeed \<Rightarrow> int \<Rightarrow> int" where
  "calculateFee speed amountCents =
     (if speed = standard then 0
      else case findBand amountCents EXPRESS_FEE_BANDS of
             Some fee \<Rightarrow> fee
           | None \<Rightarrow> outsideBands amountCents EXPRESS_FEE_BANDS)"

section \<open>Repayment application waterfall\<close>




section \<open>Ledger engine\<close>

text \<open>
  \<^verbatim>\<open>ledger/types.ts\<close> and \<^verbatim>\<open>ledger/service.ts\<close> (\<^verbatim>\<open>LedgerService\<close>).
\<close>

text \<open>
  \<^verbatim>\<open>enum ErrorCode\<close> and \<^verbatim>\<open>class AppError\<close> (\<^verbatim>\<open>common/errors/app-error.ts\<close>). A thrown
  \<^verbatim>\<open>AppError\<close> is modelled by the code its factory gives it: \<^verbatim>\<open>AppError.invalidRequest\<close>
  carries \<open>INVALID_REQUEST\<close>, \<^verbatim>\<open>AppError.notFound\<close> carries \<open>NOT_FOUND\<close>,
  \<^verbatim>\<open>AppError.invalidState\<close> carries \<open>INVALID_STATE\<close> and \<^verbatim>\<open>AppError.providerError\<close>
  carries \<open>PROVIDER_ERROR\<close>; the message and the details are dropped.
\<close>

datatype ErrorCode =
  UNAUTHORIZED | FORBIDDEN | STEP_UP_REQUIRED
  | INVALID_REQUEST | INVALID_PARAMETER | TERMS_OUT_OF_POLICY
  | INVALID_STATE | ALREADY_EXISTS | NOT_FOUND
  | INSUFFICIENT_FUNDS | INSTRUMENT_INVALID | PAYMENT_FAILED | PAYMENT_RETURNED
  | LIMIT_EXCEEDED | RATE_LIMITED
  | INTERNAL_ERROR | SERVICE_UNAVAILABLE | PROVIDER_ERROR

datatype AccountType = ASSET | LIABILITY | EQUITY | REVENUE | EXPENSE

datatype JournalType =
  DISBURSEMENT | REPAYMENT | FEE_ASSESSMENT | INTEREST_ACCRUAL | ADJUSTMENT | REVERSAL

record LedgerEntry =
  accountCode :: string
  debitCents :: int
  creditCents :: int

text \<open>
  Descriptions are template strings; the model keeps the template and its holes instead of
  the rendered text: \<open>DisbursementText p f\<close> is the disbursement template's text for
  principal \<open>p\<close> and the \<^verbatim>\<open>fromPrefund\<close> flag \<open>f\<close>, \<open>ReversalText j r\<close> is
  \<^verbatim>\<open>Reversal of ${journalId}: ${reason}\<close>.
\<close>

datatype description = Text string | DisbursementText int bool | ReversalText nat string

record CreateJournalInput =
  contractId :: "string option"
  jtype :: JournalType
  description :: description
  entries :: "LedgerEntry list"
  createdBy :: "string option"

text \<open>
  The tables. A journal's id is its position in the \<open>journals\<close> table: rows are only ever
  appended, so the position is a key the store generates, unique and never empty (the
  source tests \<^verbatim>\<open>original.reversedByJournalId\<close> for truthiness, which holds for every
  generated id). Both tables are kept in creation order, so that
  \<^verbatim>\<open>orderBy: { createdAt: 'desc' }\<close> reads a table from its end.
\<close>

text \<open>
  Modelled from the spec: the database schema is not among the sources. The journal
  columns are the fields the spec's data model gives a journal; the columns
  \<^verbatim>\<open>createJournal\<close> does not write start as \<^verbatim>\<open>isReversal = false\<close> and null references
  (a journal is a reversal, or reversed, only through \<^verbatim>\<open>reverseJournal\<close>).
\<close>

record ledgerJournal_row =
  j_contractId :: "string option"
  j_type :: JournalType
  j_description :: description
  j_isReversal :: bool
  j_reversesJournalId :: "nat option"
  j_reversedByJournalId :: "nat option"
  j_reversalReason :: "string option"
  j_createdBy :: "string option"

record ledgerEntry_row = LedgerEntry +
  e_journalId :: nat
  balanceAfterCents :: int

record JournalWithEntries =
  r_id :: nat
  r_contractId :: "string option"
  r_type :: JournalType
  r_description :: description
  r_isReversal :: bool
  r_reversesJournalId :: "nat option"
  r_reversedByJournalId :: "nat option"
  r_entries :: "ledgerEntry_row list"

record ledger_store =
  accounts :: "(string \<times> AccountType) list"
  journals :: "ledgerJournal_row list"
  ledgerEntries :: "ledgerEntry_row list"

text \<open>\<^verbatim>\<open>AccountCodes\<close>, the chart of accounts.\<close>

definition CASH_OPERATING :: string where "CASH_OPERATING = ''assets:cash:operating''"
definition CASH_PREFUND :: string where "CASH_PREFUND = ''assets:cash:prefund''"
definition LOANS_PRINCIPAL :: string where
  "LOANS_PRINCIPAL = ''assets:loans_receivable:principal''"
definition LOANS_INTEREST :: string where
  "LOANS_INTEREST = ''assets:loans_receivable:interest''"
definition LOANS_FEES :: string where "LOANS_FEES = ''assets:loans_receivable:fees''"
definition PREFUND_BALANCES :: string where "PREFUND_BALANCES = ''liabilities:prefund_balances''"
definition INTEREST_INCOME :: string where "INTEREST_INCOME = ''revenue:interest_income''"
definition FEE_EXPRESS :: string where "FEE_EXPRESS = ''revenue:fees:express_disbursement''"

subsection \<open>Validation\<close>

text \<open>The per-entry loop of \<^verbatim>\<open>validateBalance\<close>, the three checks in the source's order.\<close>

fun checkEntries :: "LedgerEntry list \<Rightarrow> ErrorCode + unit" where
  "checkEntries [] = Inr ()"
| "checkEntries (entry # rest) =
     (if debitCents entry > 0 \<and> creditCents entry > 0 then Inl INVALID_REQUEST
      else if debitCents entry = 0 \<and> creditCents entry = 0 then Inl INVALID_REQUEST
      else if debitCents entry < 0 \<or> creditCents entry < 0 then Inl INVALID_REQUEST
      else checkEntries rest)"

text \<open>
  \<^verbatim>\<open>validateBalance\<close>. Amounts are integer cents. The source adds them as \<^verbatim>\<open>number\<close>s,
  which is exact as long as the totals stay within \<open>2^53\<close> in magnitude; the model adds
  integers, and it stands for the source on such entries.
\<close>

definition validateBalance :: "LedgerEntry list \<Rightarrow> ErrorCode + unit" where
  "validateBalance es =
     (let totalDebits = foldl (\<lambda>sum e. sum + debitCents e) 0 es;
          totalCredits = foldl (\<lambda>sum e. sum + creditCents e) 0 es
      in if totalDebits \<noteq> totalCredits then Inl INVALID_REQUEST
         else checkEntries es)"

definition validateAccountCodes :: "ledger_store \<Rightarrow> string list \<Rightarrow> ErrorCode + unit" where
  "validateAccountCodes s codes =
     (let uniqueCodes = remdups codes;
          missingCodes = filter (\<lambda>c. map_of (accounts s) c = None) uniqueCodes
      in if length missingCodes > 0 then Inl INVALID_REQUEST else Inr ())"

subsection \<open>Running balances and posting\<close>

text \<open>
  \<^verbatim>\<open>getAccountBalanceInternal\<close>: the \<^verbatim>\<open>balanceAfterCents\<close> of the latest entry of the
  account, 0 when the account has no entry.
\<close>

definition getAccountBalanceInternal :: "ledgerEntry_row list \<Rightarrow> string \<Rightarrow> int" where
  "getAccountBalanceInternal rows code =
     (case find (\<lambda>r. accountCode r = code) (rev rows) of
        None \<Rightarrow> 0
      | Some lastEntry \<Rightarrow> balanceAfterCents lastEntry)"


text \<open>
  The balance after one entry: debit-normal for \<open>ASSET\<close> and \<open>EXPENSE\<close> accounts,
  credit-normal otherwise (also for a code with no account row, \<^verbatim>\<open>account?.type\<close>).
\<close>

definition newBalance :: "(string \<times> AccountType) list \<Rightarrow> int \<Rightarrow> LedgerEntry \<Rightarrow> int" where
  "newBalance accts currentBalance entry =
     (if map_of accts (accountCode entry) = Some ASSET
         \<or> map_of accts (accountCode entry) = Some EXPENSE
      then currentBalance + debitCents entry - creditCents entry
      else currentBalance + creditCents entry - debitCents entry)"

text \<open>
  The loop that creates the entries of journal \<open>jid\<close>, shared by \<^verbatim>\<open>createJournal\<close> and
  \<^verbatim>\<open>reverseJournal\<close>: it threads the entry table and the list of created rows.
\<close>

fun postEntries ::
  "(string \<times> AccountType) list \<Rightarrow> nat \<Rightarrow> ledgerEntry_row list \<Rightarrow> ledgerEntry_row list \<Rightarrow>
   LedgerEntry list \<Rightarrow> ledgerEntry_row list \<times> ledgerEntry_row list" where
  "postEntries accts jid table created [] = (table, created)"
| "postEntries accts jid table created (entry # rest) =
     (let currentBalance = getAccountBalanceInternal table (accountCode entry);
          createdEntry = \<lparr>accountCode = accountCode entry,
                          debitCents = debitCents entry,
                          creditCents = creditCents entry,
                          e_journalId = jid,
                          balanceAfterCents = newBalance accts currentBalance entry\<rparr>
      in postEntries accts jid (table @ [createdEntry]) (created @ [createdEntry]) rest)"

definition createJournal ::
  "ledger_store \<Rightarrow> CreateJournalInput \<Rightarrow> ErrorCode + (ledger_store \<times> JournalWithEntries)" where
  "createJournal s input =
     (case validateBalance (entries input) of
        Inl err \<Rightarrow> Inl err
      | Inr _ \<Rightarrow>
     (case validateAccountCodes s (map accountCode (entries input)) of
        Inl err \<Rightarrow> Inl err
      | Inr _ \<Rightarrow>
          let journal = \<lparr>j_contractId = contractId input,
                         j_type = jtype input,
                         j_description = description input,
                         j_isReversal = False,
                         j_reversesJournalId = None,
                         j_reversedByJournalId = None,
                         j_reversalReason = None,
                         j_createdBy = createdBy input\<rparr>;
              jid = length (journals s);
              (table, created) = postEntries (accounts s) jid (ledgerEntries s) [] (entries input)
          in Inr (s\<lparr>journals := journals s @ [journal], ledgerEntries := table\<rparr>,
                  \<lparr>r_id = jid,
                   r_contractId = j_contractId journal,
                   r_type = j_type journal,
                   r_description = j_description journal,
                   r_isReversal = j_isReversal journal,
                   r_reversesJournalId = j_reversesJournalId journal,
                   r_reversedByJournalId = j_reversedByJournalId journal,
                   r_entries = created\<rparr>)))"



text \<open>
  The store after a call: a call that fails has thrown before its transaction opened, so
  the store is the one it started from.
\<close>

definition storeAfter ::
  "ledger_store \<Rightarrow> ErrorCode + (ledger_store \<times> JournalWithEntries) \<Rightarrow> ledger_store" where
  "storeAfter s result = (case result of Inl _ \<Rightarrow> s | Inr (s', _) \<Rightarrow> s')"



text \<open>An empty ledger over accounts of the seeded chart.\<close>

definition seededLedger :: ledger_store where
  "seededLedger =
     \<lparr>accounts = [(CASH_OPERATING, ASSET), (LOANS_PRINCIPAL, ASSET),
                  (PREFUND_BALANCES, LIABILITY), (INTEREST_INCOME, REVENUE),
                  (FEE_EXPRESS, REVENUE)],
      journals = [], ledgerEntries = []\<rparr>"

definition adjustment :: "int \<Rightarrow> CreateJournalInput" where
  "adjustment cents =
     \<lparr>contractId = None, jtype = ADJUSTMENT, description = Text ''Increase cash'',
      entries = [\<lparr>accountCode = CASH_OPERATING, debitCents = cents, creditCents = 0\<rparr>,
                 \<lparr>accountCode = INTEREST_INCOME, debitCents = 0, creditCents = cents\<rparr>],
      createdBy = None\<rparr>"

subsection \<open>Transaction templates\<close>

record DisbursementInput =
  d_contractId :: string
  principalCents :: int
  expressFeeCents :: int
  fromPrefund :: bool
  lenderId :: string
  d_createdBy :: "string option"

definition disbursementEntries :: "DisbursementInput \<Rightarrow> LedgerEntry list" where
  "disbursementEntries input =
     (if fromPrefund input then
        [\<lparr>accountCode = LOANS_PRINCIPAL, debitCents = principalCents input, creditCents = 0\<rparr>,
         \<lparr>accountCode = PREFUND_BALANCES, debitCents = principalCents input, creditCents = 0\<rparr>]
        @ (if expressFeeCents input > 0 then
             [\<lparr>accountCode = CASH_OPERATING, debitCents = expressFeeCents input, creditCents = 0\<rparr>,
              \<lparr>accountCode = FEE_EXPRESS, debitCents = 0, creditCents = expressFeeCents input\<rparr>]
           else [])
      else
        [\<lparr>accountCode = LOANS_PRINCIPAL, debitCents = principalCents input, creditCents = 0\<rparr>,
         \<lparr>accountCode = CASH_OPERATING, debitCents = 0, creditCents = principalCents input\<rparr>]
        @ (if expressFeeCents input > 0 then
             [\<lparr>accountCode = CASH_OPERATING, debitCents = expressFeeCents input, creditCents = 0\<rparr>,
              \<lparr>accountCode = FEE_EXPRESS, debitCents = 0, creditCents = expressFeeCents input\<rparr>]
           else []))"

definition recordDisbursement ::
  "ledger_store \<Rightarrow> DisbursementInput \<Rightarrow> ErrorCode + (ledger_store \<times> JournalWithEntries)" where
  "recordDisbursement s input =
     createJournal s
       \<lparr>contractId = Some (d_contractId input),
        jtype = DISBURSEMENT,
        description = DisbursementText (principalCents input) (fromPrefund input),
        entries = disbursementEntries input,
        createdBy = d_createdBy input\<rparr>"

text \<open>Scenarios over the seeded ledger, used to evaluate the operations on concrete input.\<close>

definition unbalancedInput :: CreateJournalInput where
  "unbalancedInput =
     \<lparr>contractId = None, jtype = ADJUSTMENT, description = Text ''Unbalanced test'',
      entries = [\<lparr>accountCode = CASH_OPERATING, debitCents = 1000, creditCents = 0\<rparr>,
                 \<lparr>accountCode = LOANS_PRINCIPAL, debitCents = 0, creditCents = 500\<rparr>],
      createdBy = None\<rparr>"








definition prefundDisbursement :: DisbursementInput where
  "prefundDisbursement =
     \<lparr>d_contractId = ''contract-1'', principalCents = 10000, expressFeeCents = 0,
      fromPrefund = True, lenderId = ''lender-1'', d_createdBy = None\<rparr>"

section \<open>Transfer orchestration: status ingestion\<close>

text \<open>
  \<^verbatim>\<open>transfer-service.ts\<close>: \<^verbatim>\<open>processStatusUpdate\<close>, \<^verbatim>\<open>updateDisbursementStatus\<close> and
  \<^verbatim>\<open>updateRepaymentStatus\<close>. \<^verbatim>\<open>TransferStatus\<close> is the type of \<^verbatim>\<open>payments/types.ts\<close>.
  Times are integers (milliseconds); \<open>now\<close> stands for \<^verbatim>\<open>new Date()\<close>.
\<close>

text \<open>
  Modelled from the spec: the database schema with the enums of the stored records is not
  among the sources. Record status, availability state and contract status are the enums
  of the spec's data model (with \<open>SCHEDULED\<close>, which the repayment route writes), and the
  rows carry the columns the services read and write.
\<close>

datatype TransferStatus = pending | processing | completed | failed | returned | canceled

datatype RecordStatus =
  INITIATED | SCHEDULED | PENDING | COMPLETED | FAILED | RETURNED | CANCELLED

datatype AvailabilityState =
  AV_INITIATED | AV_PENDING | AV_RECEIVED | AV_HELD | AVAILABLE | AV_FAILED

datatype ContractStatus =
  PENDING_DISBURSEMENT | ACTIVE | PAID_OFF | DEFAULTED | CONTRACT_CANCELLED

record disbursement_row =
  rec_id :: string
  rec_contractId :: string
  providerRef :: "string option"
  amountCents :: int
  status :: RecordStatus
  availabilityState :: AvailabilityState
  initiatedAt :: "int option"
  completedAt :: "int option"
  failedAt :: "int option"
  failureReason :: "string option"

text \<open>The repayment table has the same columns and \<^verbatim>\<open>returnedAt\<close>.\<close>

record repayment_row = disbursement_row +
  returnedAt :: "int option"

record loanContract_row =
  c_id :: string
  c_tenantId :: string
  c_status :: ContractStatus
  disbursedAt :: "int option"

text \<open>
  The database the services share: the payment tables and the ledger tables
  (\<^verbatim>\<open>TransferService\<close> holds a \<^verbatim>\<open>LedgerService\<close> over the same client).
\<close>

record payments_db =
  disbursements :: "disbursement_row list"
  repayments :: "repayment_row list"
  loanContracts :: "loanContract_row list"
  ledger :: ledger_store

record TransferStatusUpdate =
  providerTransferId :: string
  u_status :: TransferStatus
  u_failureReason :: "string option"

text \<open>
  \<^verbatim>\<open>update({ where: { id }, data })\<close> on a table: the rows with that key are rewritten, and
  the call throws when there is none (reported as \<open>NOT_FOUND\<close> by the error handler). A
  field whose value in \<^verbatim>\<open>data\<close> is \<^verbatim>\<open>undefined\<close> keeps its value.
\<close>

definition updateWhere :: "('r \<Rightarrow> bool) \<Rightarrow> ('r \<Rightarrow> 'r) \<Rightarrow> 'r list \<Rightarrow> 'r list option" where
  "updateWhere p f rows =
     (if list_ex p rows then Some (map (\<lambda>r. if p r then f r else r) rows) else None)"

definition keep :: "'a option \<Rightarrow> 'a option \<Rightarrow> 'a option" where
  "keep new old = (case new of None \<Rightarrow> old | Some v \<Rightarrow> Some v)"

fun disbursementStatusMap :: "TransferStatus \<Rightarrow> RecordStatus" where
  "disbursementStatusMap pending = PENDING"
| "disbursementStatusMap processing = PENDING"
| "disbursementStatusMap completed = COMPLETED"
| "disbursementStatusMap failed = FAILED"
| "disbursementStatusMap returned = FAILED"
| "disbursementStatusMap canceled = FAILED"

fun repaymentStatusMap :: "TransferStatus \<Rightarrow> RecordStatus" where
  "repaymentStatusMap pending = PENDING"
| "repaymentStatusMap processing = PENDING"
| "repaymentStatusMap completed = COMPLETED"
| "repaymentStatusMap failed = FAILED"
| "repaymentStatusMap returned = RETURNED"
| "repaymentStatusMap canceled = CANCELLED"

fun availabilityMap :: "TransferStatus \<Rightarrow> AvailabilityState" where
  "availabilityMap pending = AV_PENDING"
| "availabilityMap processing = AV_PENDING"
| "availabilityMap completed = AVAILABLE"
| "availabilityMap failed = AV_FAILED"
| "availabilityMap returned = AV_FAILED"
| "availabilityMap canceled = AV_FAILED"

text \<open>
  The service makes its writes one after the other, outside any transaction: a call
  returns the database as its writes left it, with the error of the write that threw.
\<close>

definition updateDisbursementStatus ::
  "payments_db \<Rightarrow> string \<Rightarrow> TransferStatusUpdate \<Rightarrow> int \<Rightarrow> payments_db \<times> ErrorCode option" where
  "updateDisbursementStatus db disbursementId update now =
     (case updateWhere (\<lambda>r. rec_id r = disbursementId)
             (\<lambda>r. r\<lparr>status := disbursementStatusMap (u_status update),
                     availabilityState := availabilityMap (u_status update),
                     completedAt :=
                       keep (if u_status update = completed then Some now else None)
                            (completedAt r),
                     failedAt :=
                       keep (if u_status update = failed \<or> u_status update = returned
                             then Some now else None) (failedAt r),
                     failureReason := keep (u_failureReason update) (failureReason r)\<rparr>)
             (disbursements db) of
        None \<Rightarrow> (db, Some NOT_FOUND)
      | Some rows \<Rightarrow>
          let db1 = db\<lparr>disbursements := rows\<rparr> in
          if u_status update = completed then
            (case find (\<lambda>r. rec_id r = disbursementId) (disbursements db1) of
               None \<Rightarrow> (db1, None)
             | Some disbursement \<Rightarrow>
                 (case updateWhere (\<lambda>c. c_id c = rec_contractId disbursement)
                         (\<lambda>c. c\<lparr>c_status := ACTIVE, disbursedAt := Some now\<rparr>)
                         (loanContracts db1) of
                    None \<Rightarrow> (db1, Some NOT_FOUND)
                  | Some contracts \<Rightarrow> (db1\<lparr>loanContracts := contracts\<rparr>, None)))
          else (db1, None))"

definition updateRepaymentStatus ::
  "payments_db \<Rightarrow> string \<Rightarrow> TransferStatusUpdate \<Rightarrow> int \<Rightarrow> payments_db \<times> ErrorCode option" where
  "updateRepaymentStatus db repaymentId update now =
     (case updateWhere (\<lambda>r. rec_id r = repaymentId)
             (\<lambda>r. r\<lparr>status := repaymentStatusMap (u_status update),
                     availabilityState := availabilityMap (u_status update),
                     completedAt :=
                       keep (if u_status update = completed then Some now else None)
                            (completedAt r),
                     failedAt :=
                       keep (if u_status update = failed then Some now else None) (failedAt r),
                     failureReason := keep (u_failureReason update) (failureReason r),
                     returnedAt :=
                       keep (if u_status update = returned then Some now else None)
                            (returnedAt r)\<rparr>)
             (repayments db) of
        None \<Rightarrow> (db, Some NOT_FOUND)
      | Some rows \<Rightarrow> (db\<lparr>repayments := rows\<rparr>, None))"

definition processStatusUpdate ::
  "payments_db \<Rightarrow> TransferStatusUpdate \<Rightarrow> int \<Rightarrow> payments_db \<times> ErrorCode option" where
  "processStatusUpdate db update now =
     (case find (\<lambda>r. providerRef r = Some (providerTransferId update)) (disbursements db) of
        Some disbursement \<Rightarrow> updateDisbursementStatus db (rec_id disbursement) update now
      | None \<Rightarrow>
          (case find (\<lambda>r. providerRef r = Some (providerTransferId update)) (repayments db) of
             Some repayment \<Rightarrow> updateRepaymentStatus db (rec_id repayment) update now
           | None \<Rightarrow> (db, None)))"

text \<open>A pending disbursement of a contract that awaits it, and the updates it receives.\<close>

definition pendingDb :: payments_db where
  "pendingDb =
     \<lparr>disbursements =
        [\<lparr>rec_id = ''disb-1'', rec_contractId = ''contract-1'',
          providerRef = Some ''moov-xfer-1'', amountCents = 50000, status = PENDING,
          availabilityState = AV_PENDING, initiatedAt = Some 0, completedAt = None,
          failedAt = None, failureReason = None\<rparr>],
      repayments = [],
      loanContracts =
        [\<lparr>c_id = ''contract-1'', c_tenantId = ''tenant-1'',
          c_status = PENDING_DISBURSEMENT, disbursedAt = None\<rparr>],
      ledger = seededLedger\<rparr>"

definition transferUpdate :: "TransferStatus \<Rightarrow> TransferStatusUpdate" where
  "transferUpdate st =
     \<lparr>providerTransferId = ''moov-xfer-1'', u_status = st, u_failureReason = None\<rparr>"

definition completedDb :: payments_db where
  "completedDb = fst (processStatusUpdate pendingDb (transferUpdate completed) 1000)"

section \<open>Reconciliation engine\<close>

text \<open>
  \<^verbatim>\<open>reconciliation/types.ts\<close> and the \<^verbatim>\<open>ReconciliationService\<close>: status normalization,
  \<^verbatim>\<open>canAutoResolve\<close>, \<^verbatim>\<open>autoResolveException\<close> and the auto-resolution loop of
  \<^verbatim>\<open>runReconciliation\<close>.
\<close>

subsection \<open>Status normalization\<close>

definition statusMap :: "(string \<times> string) list" where
  "statusMap =
     [(''PENDING'', ''pending''),
      (''PROCESSING'', ''pending''),
      (''COMPLETED'', ''completed''),
      (''FAILED'', ''failed''),
      (''RETURNED'', ''returned''),
      (''CANCELLED'', ''cancelled''),
      (''created'', ''pending''),
      (''pending'', ''pending''),
      (''completed'', ''completed''),
      (''failed'', ''failed''),
      (''reversed'', ''returned'')]"

text \<open>\<^verbatim>\<open>String.prototype.toLowerCase\<close> on the ASCII letters.\<close>

definition toLowerChar :: "char \<Rightarrow> char" where
  "toLowerChar c =
     (if (65::nat) \<le> of_char c \<and> of_char c \<le> (90::nat)
      then char_of (of_char c + (32::nat)) else c)"

definition toLowerCase :: "string \<Rightarrow> string" where
  "toLowerCase str = map toLowerChar str"

text \<open>
  \<^verbatim>\<open>statusMap[status] || status.toLowerCase()\<close>: every value of the map is a non-empty
  string, so the fallback is taken exactly for the tokens the map lacks. (Keys an object
  literal inherits, such as \<^verbatim>\<open>constructor\<close>, are no status tokens and are not modelled.)
\<close>

definition normalizeStatus :: "string \<Rightarrow> string" where
  "normalizeStatus status' =
     (case map_of statusMap status' of
        Some normalized \<Rightarrow> normalized
      | None \<Rightarrow> toLowerCase status')"

subsection \<open>Exceptions and configuration\<close>

datatype ReconciliationType =
  transfer_status | transfer_missing | transfer_orphaned | amount_mismatch
  | ledger_imbalance | prefund_mismatch

datatype ExceptionSeverity = low | medium | high | critical

datatype ExceptionStatus = st_open | st_investigating | st_resolved | st_ignored

datatype ResolutionType =
  auto_corrected | manual_adjustment | provider_confirmed | local_confirmed
  | written_off | duplicate | false_positive

datatype LocalRecordType = for_disbursement | for_repayment | for_prefund | for_ledger

text \<open>
  \<^verbatim>\<open>localValue\<close> and \<^verbatim>\<open>providerValue\<close> hold JSON text. A text is modelled by what
  \<^verbatim>\<open>JSON.parse\<close> makes of it: \<open>Unparseable\<close> when it throws, otherwise the object,
  reduced to its \<^verbatim>\<open>status\<close> member (a string, or absent), the only member read.
\<close>

datatype json_doc = Unparseable | JsonObject "string option"

text \<open>
  The exception record, without its description and detection dates, which nothing reads.
\<close>

record ReconciliationException =
  exc_id :: string
  tenantId :: string
  etype :: ReconciliationType
  severity :: ExceptionSeverity
  estatus :: ExceptionStatus
  localRecordType :: "LocalRecordType option"
  localRecordId :: "string option"
  providerRecordId :: "string option"
  localValue :: "json_doc option"
  providerValue :: "json_doc option"
  discrepancyAmountCents :: "int option"
  resolvedAt :: "int option"
  resolutionType :: "ResolutionType option"
  resolutionNotes :: "string option"

record ReconciliationConfig =
  defaultLookbackDays :: int
  autoResolveStatusUpdates :: bool
  autoResolveThresholdCents :: int
  highSeverityThresholdCents :: int
  criticalSeverityThresholdCents :: int
  notifyOnCritical :: bool
  notifyOnHighCount :: int

definition DEFAULT_RECONCILIATION_CONFIG :: ReconciliationConfig where
  "DEFAULT_RECONCILIATION_CONFIG =
     \<lparr>defaultLookbackDays = 7,
      autoResolveStatusUpdates = True,
      autoResolveThresholdCents = 100,
      highSeverityThresholdCents = 10000,
      criticalSeverityThresholdCents = 100000,
      notifyOnCritical = True,
      notifyOnHighCount = 10\<rparr>"

subsection \<open>Auto-resolution\<close>

text \<open>\<^verbatim>\<open>JSON.parse(value || '{}')\<close>: a missing (or empty) text parses as the empty object.\<close>

definition parseOrEmpty :: "json_doc option \<Rightarrow> json_doc" where
  "parseOrEmpty v = (case v of None \<Rightarrow> JsonObject None | Some doc \<Rightarrow> doc)"

text \<open>\<^verbatim>\<open>doc.status || ''\<close>.\<close>

definition statusOrEmpty :: "string option \<Rightarrow> string" where
  "statusOrEmpty member = (case member of None \<Rightarrow> [] | Some str \<Rightarrow> str)"

text \<open>
  \<^verbatim>\<open>canAutoResolve\<close>. The threshold test is skipped when \<^verbatim>\<open>discrepancyAmountCents\<close> is
  falsy (absent or 0); a parse that throws is caught and answers \<^verbatim>\<open>false\<close>.
\<close>

definition canAutoResolve :: "ReconciliationConfig \<Rightarrow> ReconciliationException \<Rightarrow> bool" where
  "canAutoResolve config exception =
     (if etype exception \<noteq> transfer_status then False
      else if (case discrepancyAmountCents exception of
                 None \<Rightarrow> False
               | Some d \<Rightarrow> d \<noteq> 0 \<and> d > autoResolveThresholdCents config) then False
      else
        (case parseOrEmpty (localValue exception) of
           Unparseable \<Rightarrow> False
         | JsonObject localMember \<Rightarrow>
             (case parseOrEmpty (providerValue exception) of
                Unparseable \<Rightarrow> False
              | JsonObject providerMember \<Rightarrow>
                  let localStatus = normalizeStatus (statusOrEmpty localMember);
                      providerStatus = normalizeStatus (statusOrEmpty providerMember)
                  in localStatus = ''pending'' \<and> providerStatus = ''completed'')))"

text \<open>
  \<^verbatim>\<open>autoResolveException\<close>: nothing happens without a local record id and type (an empty
  id is falsy); a parse or an update that throws is caught, leaving the exception as it
  was; otherwise the record is completed and the exception marked.
\<close>

text \<open>The \<^verbatim>\<open>data\<close> of the update both branches make: completed, available, completed now.\<close>

definition completeRow :: "int \<Rightarrow> 'a disbursement_row_scheme \<Rightarrow> 'a disbursement_row_scheme" where
  "completeRow now r =
     r\<lparr>status := COMPLETED, availabilityState := AVAILABLE, completedAt := Some now\<rparr>"

definition markResolved :: "ReconciliationException \<Rightarrow> int \<Rightarrow> ReconciliationException" where
  "markResolved exception now =
     exception\<lparr>estatus := st_resolved,
                resolvedAt := Some now,
                resolutionType := Some auto_corrected,
                resolutionNotes := Some ''Auto-resolved: updated status from provider''\<rparr>"

definition autoResolveException ::
  "payments_db \<Rightarrow> ReconciliationException \<Rightarrow> int \<Rightarrow> payments_db \<times> ReconciliationException" where
  "autoResolveException db exception now =
     (case (localRecordId exception, localRecordType exception) of
        (Some recordId, Some recordType) \<Rightarrow>
          if recordId = [] then (db, exception)
          else
            (case parseOrEmpty (providerValue exception) of
               Unparseable \<Rightarrow> (db, exception)
             | JsonObject _ \<Rightarrow>
                 if recordType = for_disbursement then
                   (case updateWhere (\<lambda>r. rec_id r = recordId) (completeRow now)
                           (disbursements db) of
                      None \<Rightarrow> (db, exception)
                    | Some rows \<Rightarrow> (db\<lparr>disbursements := rows\<rparr>, markResolved exception now))
                 else if recordType = for_repayment then
                   (case updateWhere (\<lambda>r. rec_id r = recordId) (completeRow now)
                           (repayments db) of
                      None \<Rightarrow> (db, exception)
                    | Some rows \<Rightarrow> (db\<lparr>repayments := rows\<rparr>, markResolved exception now))
                 else (db, markResolved exception now))
      | _ \<Rightarrow> (db, exception))"

text \<open>
  The loop of \<^verbatim>\<open>runReconciliation\<close> over the exceptions found: the database, the
  exceptions (resolved ones rewritten in place) and the \<^verbatim>\<open>autoResolved\<close> list.
\<close>

fun autoResolveLoop ::
  "ReconciliationConfig \<Rightarrow> int \<Rightarrow> payments_db \<Rightarrow> ReconciliationException list \<Rightarrow>
   payments_db \<times> ReconciliationException list \<times> ReconciliationException list" where
  "autoResolveLoop config now db [] = (db, [], [])"
| "autoResolveLoop config now db (exception # rest) =
     (if canAutoResolve config exception then
        (case autoResolveException db exception now of
           (db1, exception1) \<Rightarrow>
             (case autoResolveLoop config now db1 rest of
                (db2, exceptions, autoResolved) \<Rightarrow>
                  (db2, exception1 # exceptions, exception1 # autoResolved)))
      else
        (case autoResolveLoop config now db rest of
           (db2, exceptions, autoResolved) \<Rightarrow> (db2, exception # exceptions, autoResolved)))"

definition autoResolveEligible ::
  "ReconciliationConfig \<Rightarrow> bool \<Rightarrow> int \<Rightarrow> payments_db \<Rightarrow> ReconciliationException list \<Rightarrow>
   payments_db \<times> ReconciliationException list \<times> ReconciliationException list" where
  "autoResolveEligible config dryRun now db exceptions =
     (if \<not> dryRun \<and> autoResolveStatusUpdates config
      then autoResolveLoop config now db exceptions
      else (db, exceptions, []))"

text \<open>
  What a run is given: an exception that passes \<open>canAutoResolve\<close> names, by type and id,
  a disbursement or a repayment the database holds.
\<close>

definition namesStoredRecord :: "payments_db \<Rightarrow> ReconciliationException \<Rightarrow> bool" where
  "namesStoredRecord db exception =
     (case (localRecordType exception, localRecordId exception) of
        (Some recordType, Some recordId) \<Rightarrow>
          recordId \<noteq> [] \<and>
          (if recordType = for_disbursement then list_ex (\<lambda>r. rec_id r = recordId) (disbursements db)
           else if recordType = for_repayment then list_ex (\<lambda>r. rec_id r = recordId) (repayments db)
           else False)
      | _ \<Rightarrow> False)"

text \<open>
  The record ids of one type that the exceptions passing \<open>canAutoResolve\<close> name.
\<close>

definition namedBy ::
  "ReconciliationConfig \<Rightarrow> ReconciliationException list \<Rightarrow> LocalRecordType \<Rightarrow> string \<Rightarrow> bool" where
  "namedBy config exceptions recordType recordId =
     list_ex (\<lambda>exception. canAutoResolve config exception
                \<and> localRecordType exception = Some recordType
                \<and> localRecordId exception = Some recordId) exceptions"

text \<open>
  The exception \<^verbatim>\<open>reconcileDisbursements\<close> and \<^verbatim>\<open>reconcileRepayments\<close> build when the
  normalized statuses of a local record and of its provider transfer differ:
  \<^verbatim>\<open>getStatusMismatchSeverity\<close> and the \<^verbatim>\<open>createException\<close> call, with the id that
  \<^verbatim>\<open>nanoid()\<close> draws given. \<open>statusText\<close> is the text of a status of the database.
\<close>

fun statusText :: "RecordStatus \<Rightarrow> string" where
  "statusText INITIATED = ''INITIATED''"
| "statusText SCHEDULED = ''SCHEDULED''"
| "statusText PENDING = ''PENDING''"
| "statusText COMPLETED = ''COMPLETED''"
| "statusText FAILED = ''FAILED''"
| "statusText RETURNED = ''RETURNED''"
| "statusText CANCELLED = ''CANCELLED''"

definition getStatusMismatchSeverity :: "string \<Rightarrow> string \<Rightarrow> ExceptionSeverity" where
  "getStatusMismatchSeverity localStatus providerStatus =
     (if localStatus = ''completed'' \<and> providerStatus = ''failed'' then critical
      else if localStatus = ''pending'' \<and> providerStatus = ''completed'' then high
      else medium)"

definition statusMismatchException ::
  "string \<Rightarrow> string \<Rightarrow> LocalRecordType \<Rightarrow> 'a disbursement_row_scheme \<Rightarrow> string \<Rightarrow>
   ReconciliationException" where
  "statusMismatchException tenant newId recordType record providerStatus =
     \<lparr>exc_id = newId, tenantId = tenant, etype = transfer_status,
      severity = getStatusMismatchSeverity (normalizeStatus (statusText (status record)))
                   (normalizeStatus providerStatus),
      estatus = st_open,
      localRecordType = Some recordType, localRecordId = Some (rec_id record),
      providerRecordId = providerRef record,
      localValue = Some (JsonObject (Some (statusText (status record)))),
      providerValue = Some (JsonObject (Some providerStatus)),
      discrepancyAmountCents = None,
      resolvedAt = None, resolutionType = None, resolutionNotes = None\<rparr>"

text \<open>
  A database with a pending and a failed disbursement, both completed at the provider:
  the first mismatch is the one of scenario S6, the second is not eligible.
\<close>

definition pendingRow :: disbursement_row where
  "pendingRow =
     \<lparr>rec_id = ''disb-1'', rec_contractId = ''contract-1'',
      providerRef = Some ''moov-xfer-1'', amountCents = 50000, status = PENDING,
      availabilityState = AV_PENDING, initiatedAt = Some 0, completedAt = None,
      failedAt = None, failureReason = None\<rparr>"

definition failedRow :: disbursement_row where
  "failedRow =
     \<lparr>rec_id = ''disb-2'', rec_contractId = ''contract-1'',
      providerRef = Some ''moov-xfer-2'', amountCents = 20000, status = FAILED,
      availabilityState = AV_FAILED, initiatedAt = Some 0, completedAt = None,
      failedAt = Some 500, failureReason = Some ''R01''\<rparr>"

definition reconDb :: payments_db where
  "reconDb =
     \<lparr>disbursements = [pendingRow, failedRow],
      repayments = [],
      loanContracts =
        [\<lparr>c_id = ''contract-1'', c_tenantId = ''tenant-1'',
          c_status = PENDING_DISBURSEMENT, disbursedAt = None\<rparr>],
      ledger = seededLedger\<rparr>"

definition pendingMismatch :: ReconciliationException where
  "pendingMismatch =
     statusMismatchException ''tenant-1'' ''exc-1'' for_disbursement pendingRow ''completed''"

definition failedMismatch :: ReconciliationException where
  "failedMismatch =
     statusMismatchException ''tenant-1'' ''exc-2'' for_disbursement failedRow ''completed''"

section \<open>Moov webhook endpoint\<close>

text \<open>
  \<^verbatim>\<open>webhook-handler.ts\<close> (\<^verbatim>\<open>MoovWebhookHandler\<close>) and the route
  \<^verbatim>\<open>POST /payments/webhooks/moov\<close> of \<^verbatim>\<open>payments/routes.ts\<close>. The HMAC-SHA256 hex
  digest of \<^verbatim>\<open>crypto\<close> and \<^verbatim>\<open>JSON.parse\<close> are library functions and are parameters of
  the model: \<open>hmac secret text\<close> is the digest, \<open>jsonParse text\<close> is the parsed object
  (\<open>None\<close> when parsing throws), reduced to the members the handler reads.
\<close>

record env =
  MOOV_WEBHOOK_SECRET :: "string option"
  NODE_ENV :: string

record webhook_request =
  rawBody :: "string option"
  bodyJson :: string
  signatureHeader :: "string option"
  timestampHeader :: "string option"

record transfer_data =
  transferID :: string
  data_status :: string
  data_failureReason :: "string option"

record parsed_event =
  eventID :: "string option"
  ev_type :: "string option"
  ev_data :: "transfer_data option"

record MoovWebhookEvent =
  m_eventID :: string
  m_type :: string
  m_data :: transfer_data

datatype reply = Received | Thrown ErrorCode

text \<open>Truthiness of an optional string: present and not empty.\<close>

definition truthy :: "string option \<Rightarrow> bool" where
  "truthy v = (case v of None \<Rightarrow> False | Some str \<Rightarrow> str \<noteq> [])"

text \<open>The text a template string renders for a body that may be \<^verbatim>\<open>undefined\<close>.\<close>

definition rendered :: "string option \<Rightarrow> string" where
  "rendered v = (case v of None \<Rightarrow> ''undefined'' | Some str \<Rightarrow> str)"

text \<open>
  \<^verbatim>\<open>verifySignature\<close>. \<^verbatim>\<open>crypto.timingSafeEqual\<close> throws on buffers of different
  length, which is caught and answers \<^verbatim>\<open>false\<close>.
\<close>

definition verifySignature ::
  "env \<Rightarrow> (string \<Rightarrow> string \<Rightarrow> string) \<Rightarrow> string option \<Rightarrow> string \<Rightarrow> string \<Rightarrow>
   ErrorCode + bool" where
  "verifySignature e hmac payload signature timestamp =
     (if \<not> truthy (MOOV_WEBHOOK_SECRET e) then
        (if NODE_ENV e = ''development'' then Inr True else Inl INVALID_REQUEST)
      else
        let signedPayload = timestamp @ ''.'' @ rendered payload;
            expectedSignature = hmac (the (MOOV_WEBHOOK_SECRET e)) signedPayload
        in if length signature \<noteq> length expectedSignature then Inr False
           else Inr (signature = expectedSignature))"

definition parseEvent ::
  "(string \<Rightarrow> parsed_event option) \<Rightarrow> string \<Rightarrow> ErrorCode + MoovWebhookEvent" where
  "parseEvent jsonParse payload =
     (case jsonParse payload of
        None \<Rightarrow> Inl INVALID_REQUEST
      | Some event \<Rightarrow>
          if \<not> truthy (eventID event) \<or> \<not> truthy (ev_type event) \<or> ev_data event = None
          then Inl INVALID_REQUEST
          else Inr \<lparr>m_eventID = the (eventID event), m_type = the (ev_type event),
                    m_data = the (ev_data event)\<rparr>)"

definition MOOV_TRANSFER_STATUS_MAP :: "(string \<times> TransferStatus) list" where
  "MOOV_TRANSFER_STATUS_MAP =
     [(''created'', pending),
      (''pending'', processing),
      (''completed'', completed),
      (''failed'', failed),
      (''reversed'', returned)]"

text \<open>
  \<^verbatim>\<open>handleTransferEvent\<close>. The payload is taken to carry a string \<^verbatim>\<open>transferID\<close> and a
  \<^verbatim>\<open>status\<close> text; a status that is no key of the map is logged and dropped. (Keys an
  object literal inherits, such as \<^verbatim>\<open>constructor\<close>, are no Moov statuses and are not
  modelled.)
\<close>

definition handleTransferEvent ::
  "payments_db \<Rightarrow> MoovWebhookEvent \<Rightarrow> int \<Rightarrow> payments_db \<times> ErrorCode option" where
  "handleTransferEvent db event now =
     (case map_of MOOV_TRANSFER_STATUS_MAP (data_status (m_data event)) of
        None \<Rightarrow> (db, None)
      | Some st \<Rightarrow>
          processStatusUpdate db
            \<lparr>providerTransferId = transferID (m_data event),
             u_status = st,
             u_failureReason = data_failureReason (m_data event)\<rparr> now)"

text \<open>
  \<^verbatim>\<open>processEvent\<close>: transfer events go to \<^verbatim>\<open>handleTransferEvent\<close>; the bank-account,
  card and payment-method handlers and the default branch only log.
\<close>

definition processEvent ::
  "payments_db \<Rightarrow> MoovWebhookEvent \<Rightarrow> int \<Rightarrow> payments_db \<times> ErrorCode option" where
  "processEvent db event now =
     (if m_type event \<in> set [''transfer.created'', ''transfer.pending'',
                               ''transfer.completed'', ''transfer.failed'',
                               ''transfer.reversed'']
      then handleTransferEvent db event now
      else (db, None))"

text \<open>The route after the signature check: parse, dispatch, acknowledge.\<close>

definition parseAndProcess ::
  "(string \<Rightarrow> parsed_event option) \<Rightarrow> payments_db \<Rightarrow> webhook_request \<Rightarrow> int \<Rightarrow>
   payments_db \<times> reply" where
  "parseAndProcess jsonParse db request now =
     (case parseEvent jsonParse
             (if truthy (rawBody request) then the (rawBody request) else bodyJson request) of
        Inl err \<Rightarrow> (db, Thrown err)
      | Inr event \<Rightarrow>
          (case processEvent db event now of
             (db', Some err) \<Rightarrow> (db', Thrown err)
           | (db', None) \<Rightarrow> (db', Received)))"

definition moovWebhook ::
  "env \<Rightarrow> (string \<Rightarrow> string \<Rightarrow> string) \<Rightarrow> (string \<Rightarrow> parsed_event option) \<Rightarrow>
   payments_db \<Rightarrow> webhook_request \<Rightarrow> int \<Rightarrow> payments_db \<times> reply" where
  "moovWebhook e hmac jsonParse db request now =
     (if truthy (signatureHeader request) \<and> truthy (timestampHeader request) then
        (case verifySignature e hmac (rawBody request)
                (the (signatureHeader request)) (the (timestampHeader request)) of
           Inl err \<Rightarrow> (db, Thrown err)
         | Inr isValid \<Rightarrow>
             if \<not> isValid then (db, Thrown INVALID_REQUEST)
             else parseAndProcess jsonParse db request now)
      else parseAndProcess jsonParse db request now)"

text \<open>
  A production environment with a secret, a digest no forged signature matches, and an
  unsigned \<^verbatim>\<open>transfer.completed\<close> event for the pending disbursement.
\<close>

definition prodEnv :: env where
  "prodEnv = \<lparr>MOOV_WEBHOOK_SECRET = Some ''whsec'', NODE_ENV = ''production''\<rparr>"

definition completedEvent :: parsed_event where
  "completedEvent =
     \<lparr>eventID = Some ''evt-1'', ev_type = Some ''transfer.completed'',
      ev_data = Some \<lparr>transferID = ''moov-xfer-1'', data_status = ''completed'',
                      data_failureReason = None\<rparr>\<rparr>"

definition unsignedRequest :: webhook_request where
  "unsignedRequest =
     \<lparr>rawBody = Some ''{}'', bodyJson = ''{}'', signatureHeader = None,
      timestampHeader = None\<rparr>"

section \<open>Theorems\<close>

subsection \<open>Fee bands\<close>

lemma calculateFee_instant_table:
  "calculateFee instant x =
     (if x \<le> 50000 then 299 else if x \<le> 200000 then 499 else if x \<le> 500000 then 799
      else if x \<le> 1000000 then 999 else if x \<le> 2500000 then 1499 else 1999)"
  by (simp add: calculateFee_def EXPRESS_FEE_BANDS_def outsideBands_def)

text \<open>
  Claim C7. Standard speed is free for every amount; the instant fee is the banded table
  value (299 up to 50 000 including amounts under the lowest band's minimum, 499 up to
  200 000, 799 up to 500 000, 999 up to 1 000 000, 1 499 up to 2 500 000, 1 999 above),
  upper boundaries inclusive; and the instant fee never decreases when the amount grows.
\<close>

theorem calculateFee_bands_monotone:
  "calculateFee standard x = 0 \<and>
   calculateFee instant x =
     (if x \<le> 50000 then 299 else if x \<le> 200000 then 499 else if x \<le> 500000 then 799
      else if x \<le> 1000000 then 999 else if x \<le> 2500000 then 1499 else 1999) \<and>
   (x \<le> y \<longrightarrow> calculateFee instant x \<le> calculateFee instant y)"
proof -
  have std: "calculateFee standard x = 0"
    by (simp add: calculateFee_def)
  have mono: "x \<le> y \<longrightarrow> calculateFee instant x \<le> calculateFee instant y"
    unfolding calculateFee_instant_table by simp
  show ?thesis
    using std mono calculateFee_instant_table by blast
qed

theorem calculateFee_bands_monotone_witness:
  "calculateFee standard 50000 = 0 \<and> calculateFee instant 50000 = 299 \<and>
   (50000::int) \<le> 50001 \<and> calculateFee instant 50001 = 499 \<and>
   calculateFee instant 50000 \<le> calculateFee instant 50001"
  using calculateFee_bands_monotone [of 50000 50001]
        calculateFee_bands_monotone [of 50001 50001]
  by simp

subsection \<open>Repayment waterfall\<close>




subsection \<open>Ledger: validation\<close>

lemma foldl_add_sum_list:
  "foldl (\<lambda>sum e. sum + f e) a es = (a::int) + sum_list (map f es)"
  by (induction es arbitrary: a) auto

lemma checkEntries_cases:
  "checkEntries es =
     (if \<exists>e\<in>set es. (debitCents e \<noteq> 0 \<and> creditCents e \<noteq> 0)
                     \<or> (debitCents e = 0 \<and> creditCents e = 0)
                     \<or> debitCents e < 0 \<or> creditCents e < 0
      then Inl INVALID_REQUEST else Inr ())"
  by (induction es) auto

lemma validateBalance_cases:
  "validateBalance es =
     (if (\<exists>e\<in>set es. (debitCents e \<noteq> 0 \<and> creditCents e \<noteq> 0)
                     \<or> (debitCents e = 0 \<and> creditCents e = 0)
                     \<or> debitCents e < 0 \<or> creditCents e < 0)
         \<or> sum_list (map debitCents es) \<noteq> sum_list (map creditCents es)
      then Inl INVALID_REQUEST else Inr ())"
  by (auto simp: validateBalance_def Let_def foldl_add_sum_list checkEntries_cases)



text \<open>
  Claim C1. For entries whose amounts are integer cents with totals inside the range where
  \<^verbatim>\<open>number\<close> sums are exact (the absolute debits, and the absolute credits, sum to at most
  \<open>2^53 = 9007199254740992\<close>): when some entry has both amounts non-zero, or both zero,
  or a negative amount, or when the debits and the credits sum differently,
  \<open>createJournal\<close> fails with \<open>INVALID_REQUEST\<close> and the store is left as it was (no
  journal and no entry written); in every other case the balance validation passes.
\<close>

theorem createJournal_validation:
  assumes "sum_list (map (\<lambda>e. \<bar>debitCents e\<bar>) (entries input)) \<le> 9007199254740992"
    and "sum_list (map (\<lambda>e. \<bar>creditCents e\<bar>) (entries input)) \<le> 9007199254740992"
  shows
  "((\<exists>e\<in>set (entries input). (debitCents e \<noteq> 0 \<and> creditCents e \<noteq> 0)
                     \<or> (debitCents e = 0 \<and> creditCents e = 0)
                     \<or> debitCents e < 0 \<or> creditCents e < 0)
     \<or> sum_list (map debitCents (entries input)) \<noteq> sum_list (map creditCents (entries input))
    \<longrightarrow> createJournal s input = Inl INVALID_REQUEST
        \<and> storeAfter s (createJournal s input) = s) \<and>
   (\<not> ((\<exists>e\<in>set (entries input). (debitCents e \<noteq> 0 \<and> creditCents e \<noteq> 0)
                     \<or> (debitCents e = 0 \<and> creditCents e = 0)
                     \<or> debitCents e < 0 \<or> creditCents e < 0)
     \<or> sum_list (map debitCents (entries input)) \<noteq> sum_list (map creditCents (entries input)))
    \<longrightarrow> validateBalance (entries input) = Inr ())"
  by (auto simp: createJournal_def storeAfter_def validateBalance_cases)

theorem createJournal_validation_witness:
  "sum_list (map (\<lambda>e. \<bar>debitCents e\<bar>) (entries unbalancedInput)) \<le> 9007199254740992 \<and>
   sum_list (map (\<lambda>e. \<bar>creditCents e\<bar>) (entries unbalancedInput)) \<le> 9007199254740992 \<and>
   createJournal seededLedger unbalancedInput = Inl INVALID_REQUEST \<and>
   storeAfter seededLedger (createJournal seededLedger unbalancedInput) = seededLedger \<and>
   validateBalance (entries (adjustment 100)) = Inr ()"
proof -
  have d: "sum_list (map (\<lambda>e. \<bar>debitCents e\<bar>) (entries unbalancedInput)) \<le> 9007199254740992"
    and c: "sum_list (map (\<lambda>e. \<bar>creditCents e\<bar>) (entries unbalancedInput)) \<le> 9007199254740992"
    by (simp_all add: unbalancedInput_def)
  have d': "sum_list (map (\<lambda>e. \<bar>debitCents e\<bar>) (entries (adjustment 100))) \<le> 9007199254740992"
    and c': "sum_list (map (\<lambda>e. \<bar>creditCents e\<bar>) (entries (adjustment 100))) \<le> 9007199254740992"
    by (simp_all add: adjustment_def)
  show ?thesis
    using d c createJournal_validation [OF d c, of seededLedger]
          createJournal_validation [OF d' c', of seededLedger]
    by (simp add: unbalancedInput_def adjustment_def storeAfter_def)
qed

subsection \<open>Ledger: the prefund disbursement template\<close>

text \<open>
  Claim C2 (the code departs from it). With \<^verbatim>\<open>fromPrefund\<close> set, the template debits
  \<open>PREFUND_BALANCES\<close> instead of crediting it, so the principal is debited twice and never
  credited: for every principal other than 0 the journal is unbalanced and
  \<open>recordDisbursement\<close> is refused with \<open>INVALID_REQUEST\<close>.
\<close>

theorem recordDisbursement_fromPrefund_rejected:
  assumes "fromPrefund input" and "principalCents input \<noteq> 0"
  shows "recordDisbursement s input = Inl INVALID_REQUEST"
  using assms
  by (simp add: recordDisbursement_def createJournal_def validateBalance_def
        disbursementEntries_def Let_def)

theorem recordDisbursement_fromPrefund_rejected_witness:
  "fromPrefund prefundDisbursement \<and> principalCents prefundDisbursement = 10000 \<and>
   disbursementEntries prefundDisbursement =
     [\<lparr>accountCode = LOANS_PRINCIPAL, debitCents = 10000, creditCents = 0\<rparr>,
      \<lparr>accountCode = PREFUND_BALANCES, debitCents = 10000, creditCents = 0\<rparr>] \<and>
   recordDisbursement seededLedger prefundDisbursement = Inl INVALID_REQUEST"
  using recordDisbursement_fromPrefund_rejected [of prefundDisbursement seededLedger]
  by (simp add: prefundDisbursement_def disbursementEntries_def)

subsection \<open>Ledger: reversal\<close>























subsection \<open>Status ingestion\<close>

lemma find_update_key:
  assumes "\<And>r. k (f r) = k r"
  shows "find (\<lambda>r. k r = x) (map (\<lambda>r. if k r = x then f r else r) rows)
           = map_option f (find (\<lambda>r. k r = x) rows)"
  using assms by (induction rows) auto

lemma find_by_key:
  assumes "find p rows = Some d" and "distinct (map k rows)"
  shows "find (\<lambda>r. k r = k d) rows = Some d"
  using assms
proof (induction rows)
  case Nil
  then show ?case by simp
next
  case (Cons r rows)
  show ?case
  proof (cases "p r")
    case True
    with Cons.prems show ?thesis by simp
  next
    case False
    with Cons.prems have tl: "find p rows = Some d" and dist: "distinct (map k rows)"
      and fresh: "k r \<notin> k ` set rows"
      by auto
    from tl have "d \<in> set rows"
      by (auto simp: find_Some_iff)
    with fresh have "k r \<noteq> k d" by auto
    with Cons.IH [OF tl dist] show ?thesis by simp
  qed
qed

lemma find_Some_list_ex: "find p rows = Some d \<Longrightarrow> list_ex p rows"
  by (induction rows) (auto split: if_splits)

lemma updateDisbursementStatus_row:
  assumes byid: "find (\<lambda>r. rec_id r = i) (disbursements db) = Some d"
  shows "find (\<lambda>r. rec_id r = i)
           (disbursements (fst (updateDisbursementStatus db i update now)))
         = Some (d\<lparr>status := disbursementStatusMap (u_status update),
                    availabilityState := availabilityMap (u_status update),
                    completedAt :=
                       keep (if u_status update = completed then Some now else None)
                            (completedAt d),
                    failedAt :=
                       keep (if u_status update = failed \<or> u_status update = returned
                             then Some now else None) (failedAt d),
                    failureReason := keep (u_failureReason update) (failureReason d)\<rparr>)"
proof -
  have ex: "list_ex (\<lambda>r. rec_id r = i) (disbursements db)"
    using find_Some_list_ex [OF byid] .
  show ?thesis
    using ex byid
    by (simp add: updateDisbursementStatus_def updateWhere_def Let_def
          find_update_key [where k = rec_id] split: option.splits)
qed


lemma updateRepaymentStatus_row:
  assumes byid: "find (\<lambda>r. rec_id r = i) (repayments db) = Some p"
  shows "\<exists>p'. find (\<lambda>r. rec_id r = i) (repayments (fst (updateRepaymentStatus db i update now)))
                = Some p' \<and> status p' = repaymentStatusMap (u_status update)
                \<and> availabilityState p' = availabilityMap (u_status update)"
proof -
  have ex: "list_ex (\<lambda>r. rec_id r = i) (repayments db)"
    using find_Some_list_ex [OF byid] .
  show ?thesis
    using ex byid
    by (simp add: updateRepaymentStatus_def updateWhere_def find_update_key [where k = rec_id])
qed

lemma disbursementStatusMap_COMPLETED:
  "disbursementStatusMap st = COMPLETED \<longleftrightarrow> st = completed"
  by (cases st) simp_all

lemma repaymentStatusMap_COMPLETED:
  "repaymentStatusMap st = COMPLETED \<longleftrightarrow> st = completed"
  by (cases st) simp_all

lemmas ingestion_eval =
  completedDb_def processStatusUpdate_def updateDisbursementStatus_def updateWhere_def
  pendingDb_def transferUpdate_def keep_def Let_def

text \<open>
  Claim C4, as stated, fails: ingesting \<open>completed\<close> for a disbursement posts no journal.
  The pending disbursement of \<open>pendingDb\<close> becomes \<open>COMPLETED\<close> and its contract
  \<open>ACTIVE\<close>, and the ledger still holds no journal and no entry.
\<close>

theorem completed_ingestion_posts_nothing_counterexample:
  "snd (processStatusUpdate pendingDb (transferUpdate completed) 1000) = None \<and>
   map status (disbursements completedDb) = [COMPLETED] \<and>
   map c_status (loanContracts completedDb) = [ACTIVE] \<and>
   journals (ledger completedDb) = [] \<and> ledgerEntries (ledger completedDb) = []"
  by (simp add: ingestion_eval seededLedger_def)

text \<open>
  Claim C4, amended. For every disbursement record found by the update's provider
  reference (record ids being unique, the owning contract stored), ingesting a
  \<open>completed\<close> update succeeds; the record's status becomes \<open>COMPLETED\<close> with availability
  \<open>AVAILABLE\<close> and \<open>completedAt = now\<close>; the owning contract is set to \<open>ACTIVE\<close> with
  \<open>disbursedAt = now\<close>, whatever its status was; the repayments and the ledger are left
  unchanged: no journal is posted.
\<close>

theorem completed_disbursement_ingestion:
  assumes found: "find (\<lambda>r. providerRef r = Some (providerTransferId update)) (disbursements db)
                    = Some d"
    and pk: "distinct (map rec_id (disbursements db))"
    and compl: "u_status update = completed"
    and contract: "find (\<lambda>c. c_id c = rec_contractId d) (loanContracts db) = Some c"
  shows "\<exists>db'. processStatusUpdate db update now = (db', None) \<and>
           find (\<lambda>r. rec_id r = rec_id d) (disbursements db')
             = Some (d\<lparr>status := COMPLETED, availabilityState := AVAILABLE,
                        completedAt := Some now,
                        failureReason := keep (u_failureReason update) (failureReason d)\<rparr>) \<and>
           find (\<lambda>c. c_id c = rec_contractId d) (loanContracts db')
             = Some (c\<lparr>c_status := ACTIVE, disbursedAt := Some now\<rparr>) \<and>
           repayments db' = repayments db \<and> ledger db' = ledger db"
proof -
  have byid: "find (\<lambda>r. rec_id r = rec_id d) (disbursements db) = Some d"
    using find_by_key [OF found pk] .
  have ex: "list_ex (\<lambda>r. rec_id r = rec_id d) (disbursements db)"
    using find_Some_list_ex [OF byid] .
  have exc: "list_ex (\<lambda>c. c_id c = rec_contractId d) (loanContracts db)"
    using find_Some_list_ex [OF contract] .
  show ?thesis
    using ex exc byid contract compl
    by (simp add: processStatusUpdate_def found updateDisbursementStatus_def updateWhere_def
          Let_def keep_def find_update_key [where k = rec_id] find_update_key [where k = c_id])
qed



theorem completed_disbursement_ingestion_witness:
  "find (\<lambda>r. providerRef r = Some (providerTransferId (transferUpdate completed)))
     (disbursements pendingDb) = Some (hd (disbursements pendingDb)) \<and>
   distinct (map rec_id (disbursements pendingDb)) \<and>
   u_status (transferUpdate completed) = completed \<and>
   find (\<lambda>c. c_id c = rec_contractId (hd (disbursements pendingDb))) (loanContracts pendingDb)
     = Some (hd (loanContracts pendingDb)) \<and>
   processStatusUpdate pendingDb (transferUpdate completed) 1000 = (completedDb, None) \<and>
   map status (disbursements completedDb) = [COMPLETED] \<and>
   map availabilityState (disbursements completedDb) = [AVAILABLE] \<and>
   map completedAt (disbursements completedDb) = [Some 1000] \<and>
   map c_status (loanContracts completedDb) = [ACTIVE] \<and>
   map disbursedAt (loanContracts completedDb) = [Some 1000] \<and>
   ledger completedDb = ledger pendingDb"
proof -
  have found: "find (\<lambda>r. providerRef r = Some (providerTransferId (transferUpdate completed)))
     (disbursements pendingDb) = Some (hd (disbursements pendingDb))"
    by (simp add: pendingDb_def transferUpdate_def)
  have pk: "distinct (map rec_id (disbursements pendingDb))"
    by (simp add: pendingDb_def)
  have compl: "u_status (transferUpdate completed) = completed"
    by (simp add: transferUpdate_def)
  have contract: "find (\<lambda>c. c_id c = rec_contractId (hd (disbursements pendingDb)))
      (loanContracts pendingDb) = Some (hd (loanContracts pendingDb))"
    by (simp add: pendingDb_def)
  from completed_disbursement_ingestion [OF found pk compl contract, of 1000]
  have run: "processStatusUpdate pendingDb (transferUpdate completed) 1000 = (completedDb, None)"
    and led: "ledger completedDb = ledger pendingDb"
    by (auto simp: completedDb_def)
  have vals: "map status (disbursements completedDb) = [COMPLETED] \<and>
   map availabilityState (disbursements completedDb) = [AVAILABLE] \<and>
   map completedAt (disbursements completedDb) = [Some 1000] \<and>
   map c_status (loanContracts completedDb) = [ACTIVE] \<and>
   map disbursedAt (loanContracts completedDb) = [Some 1000]"
    by (simp add: ingestion_eval)
  show ?thesis
    using found pk compl contract run led vals by blast
qed

text \<open>
  Claim C5, as stated, fails: a \<open>COMPLETED\<close> disbursement that receives a \<open>pending\<close>
  update goes back to \<open>PENDING\<close>.
\<close>

theorem uncomplete_counterexample:
  "map status (disbursements completedDb) = [COMPLETED] \<and>
   map status (disbursements (fst (processStatusUpdate completedDb (transferUpdate pending) 2000)))
     = [PENDING]"
  by (simp add: ingestion_eval)

text \<open>
  Claim C5, amended. For every disbursement record found by the update's provider
  reference, and for every repayment record found by it when no disbursement is (record
  ids being unique), processing the update overwrites the record's status with the status
  the update maps to, whatever the record's status was: afterwards the record is
  \<open>COMPLETED\<close> exactly when the update's status is \<open>completed\<close>, so a \<open>COMPLETED\<close> record
  that receives any other update is un-completed.
\<close>

theorem status_update_overwrites:
  "(find (\<lambda>r. providerRef r = Some (providerTransferId update)) (disbursements db) = Some d
      \<and> distinct (map rec_id (disbursements db))
    \<longrightarrow> (\<exists>d'. find (\<lambda>r. rec_id r = rec_id d)
                   (disbursements (fst (processStatusUpdate db update now))) = Some d'
             \<and> status d' = disbursementStatusMap (u_status update)
             \<and> (status d' = COMPLETED \<longleftrightarrow> u_status update = completed))) \<and>
   (find (\<lambda>r. providerRef r = Some (providerTransferId update)) (disbursements db) = None
      \<and> find (\<lambda>r. providerRef r = Some (providerTransferId update)) (repayments db) = Some p
      \<and> distinct (map rec_id (repayments db))
    \<longrightarrow> (\<exists>p'. find (\<lambda>r. rec_id r = rec_id p)
                   (repayments (fst (processStatusUpdate db update now))) = Some p'
             \<and> status p' = repaymentStatusMap (u_status update)
             \<and> (status p' = COMPLETED \<longleftrightarrow> u_status update = completed)))"
proof (intro conjI impI)
  assume a: "find (\<lambda>r. providerRef r = Some (providerTransferId update)) (disbursements db) = Some d
      \<and> distinct (map rec_id (disbursements db))"
  have byid: "find (\<lambda>r. rec_id r = rec_id d) (disbursements db) = Some d"
    using find_by_key [OF conjunct1 [OF a] conjunct2 [OF a]] .
  have run: "processStatusUpdate db update now
               = updateDisbursementStatus db (rec_id d) update now"
    by (simp add: processStatusUpdate_def conjunct1 [OF a])
  show "\<exists>d'. find (\<lambda>r. rec_id r = rec_id d)
                   (disbursements (fst (processStatusUpdate db update now))) = Some d'
             \<and> status d' = disbursementStatusMap (u_status update)
             \<and> (status d' = COMPLETED \<longleftrightarrow> u_status update = completed)"
    unfolding run updateDisbursementStatus_row [OF byid]
    by (simp add: disbursementStatusMap_COMPLETED)
next
  assume a: "find (\<lambda>r. providerRef r = Some (providerTransferId update)) (disbursements db) = None
      \<and> find (\<lambda>r. providerRef r = Some (providerTransferId update)) (repayments db) = Some p
      \<and> distinct (map rec_id (repayments db))"
  have byid: "find (\<lambda>r. rec_id r = rec_id p) (repayments db) = Some p"
    using find_by_key [OF conjunct1 [OF conjunct2 [OF a]] conjunct2 [OF conjunct2 [OF a]]] .
  have run: "processStatusUpdate db update now
               = updateRepaymentStatus db (rec_id p) update now"
    by (simp add: processStatusUpdate_def conjunct1 [OF a] conjunct1 [OF conjunct2 [OF a]])
  from updateRepaymentStatus_row [OF byid, of update now] obtain p' where p':
    "find (\<lambda>r. rec_id r = rec_id p) (repayments (fst (updateRepaymentStatus db (rec_id p) update now)))
       = Some p'" "status p' = repaymentStatusMap (u_status update)"
    by blast
  show "\<exists>p'. find (\<lambda>r. rec_id r = rec_id p)
                   (repayments (fst (processStatusUpdate db update now))) = Some p'
             \<and> status p' = repaymentStatusMap (u_status update)
             \<and> (status p' = COMPLETED \<longleftrightarrow> u_status update = completed)"
    unfolding run using p' by (simp add: repaymentStatusMap_COMPLETED)
qed


theorem status_update_overwrites_witness:
  "find (\<lambda>r. providerRef r = Some (providerTransferId (transferUpdate pending)))
     (disbursements completedDb) = Some (hd (disbursements completedDb)) \<and>
   distinct (map rec_id (disbursements completedDb)) \<and>
   status (hd (disbursements completedDb)) = COMPLETED \<and>
   (\<exists>d'. find (\<lambda>r. rec_id r = rec_id (hd (disbursements completedDb)))
            (disbursements (fst (processStatusUpdate completedDb (transferUpdate pending) 2000)))
          = Some d' \<and> status d' = PENDING)"
proof -
  have found: "find (\<lambda>r. providerRef r = Some (providerTransferId (transferUpdate pending)))
     (disbursements completedDb) = Some (hd (disbursements completedDb))"
    by (simp add: ingestion_eval)
  have pk: "distinct (map rec_id (disbursements completedDb))"
    by (simp add: ingestion_eval)
  have st: "status (hd (disbursements completedDb)) = COMPLETED"
    by (simp add: ingestion_eval)
  from status_update_overwrites
         [of "transferUpdate pending" completedDb "hd (disbursements completedDb)" 2000]
       found pk
  have "\<exists>d'. find (\<lambda>r. rec_id r = rec_id (hd (disbursements completedDb)))
            (disbursements (fst (processStatusUpdate completedDb (transferUpdate pending) 2000)))
          = Some d' \<and> status d' = disbursementStatusMap (u_status (transferUpdate pending))"
    by blast
  then show ?thesis
    using found pk st by (simp add: transferUpdate_def)
qed

subsection \<open>Reconciliation: status normalization\<close>

text \<open>
  Claim C8, as stated, fails on the provider token \<open>canceled\<close>: the map has no such key,
  so the token is only lower-cased and stays \<open>canceled\<close>, while the local \<open>CANCELLED\<close>
  normalizes to \<open>cancelled\<close>; the two compare as different.
\<close>

theorem normalizeStatus_canceled_counterexample:
  "normalizeStatus ''CANCELLED'' = ''cancelled'' \<and>
   normalizeStatus ''canceled'' = ''canceled'' \<and>
   normalizeStatus ''CANCELLED'' \<noteq> normalizeStatus ''canceled''"
  by (simp add: normalizeStatus_def statusMap_def toLowerCase_def toLowerChar_def)

text \<open>
  Claim C8, amended. \<open>PENDING\<close>, \<open>PROCESSING\<close>, \<open>created\<close> and \<open>pending\<close> normalize to
  \<open>pending\<close>; \<open>COMPLETED\<close> and \<open>completed\<close> to \<open>completed\<close>; \<open>FAILED\<close> and \<open>failed\<close> to
  \<open>failed\<close>; \<open>RETURNED\<close> and \<open>reversed\<close> to \<open>returned\<close>; \<open>CANCELLED\<close> to \<open>cancelled\<close>;
  the token \<open>canceled\<close> normalizes to itself, so a local \<open>CANCELLED\<close> record compared with
  a provider \<open>canceled\<close> transfer counts as a status mismatch.
\<close>

theorem normalizeStatus_table:
  "normalizeStatus ''PENDING'' = ''pending'' \<and>
   normalizeStatus ''PROCESSING'' = ''pending'' \<and>
   normalizeStatus ''created'' = ''pending'' \<and>
   normalizeStatus ''pending'' = ''pending'' \<and>
   normalizeStatus ''COMPLETED'' = ''completed'' \<and>
   normalizeStatus ''completed'' = ''completed'' \<and>
   normalizeStatus ''FAILED'' = ''failed'' \<and>
   normalizeStatus ''failed'' = ''failed'' \<and>
   normalizeStatus ''RETURNED'' = ''returned'' \<and>
   normalizeStatus ''reversed'' = ''returned'' \<and>
   normalizeStatus ''CANCELLED'' = ''cancelled'' \<and>
   normalizeStatus ''canceled'' = ''canceled'' \<and>
   normalizeStatus ''CANCELLED'' \<noteq> normalizeStatus ''canceled''"
  by (simp add: normalizeStatus_def statusMap_def toLowerCase_def toLowerChar_def)

subsection \<open>Reconciliation: auto-resolution\<close>

lemma canAutoResolve_iff:
  assumes "0 \<le> autoResolveThresholdCents config"
  shows "canAutoResolve config e \<longleftrightarrow>
     etype e = transfer_status \<and>
     (\<forall>d. discrepancyAmountCents e = Some d \<longrightarrow> d \<le> autoResolveThresholdCents config) \<and>
     (\<exists>l. parseOrEmpty (localValue e) = JsonObject l
          \<and> normalizeStatus (statusOrEmpty l) = ''pending'') \<and>
     (\<exists>p. parseOrEmpty (providerValue e) = JsonObject p
          \<and> normalizeStatus (statusOrEmpty p) = ''completed'')"
  using assms
  by (auto simp: canAutoResolve_def Let_def split: option.splits json_doc.splits)

lemma completeRow_simps:
  "rec_id (completeRow now r) = rec_id r"
  "completeRow now (completeRow now r) = completeRow now r"
  "status (completeRow now r) = COMPLETED"
  "availabilityState (completeRow now r) = AVAILABLE"
  "completedAt (completeRow now r) = Some now"
  by (simp_all add: completeRow_def)

lemma list_ex_complete:
  "list_ex (\<lambda>r. rec_id r = i) (map (\<lambda>r. if p r then completeRow now r else r) rows)
     = list_ex (\<lambda>r. rec_id r = i) rows"
  by (induction rows) (auto simp: completeRow_simps)

lemma autoResolveException_named:
  assumes can: "canAutoResolve config e" and named: "namesStoredRecord db e"
  shows "autoResolveException db e now
           = (db\<lparr>disbursements :=
                    map (\<lambda>r. if localRecordType e = Some for_disbursement
                                 \<and> localRecordId e = Some (rec_id r)
                              then completeRow now r else r) (disbursements db),
                  repayments :=
                    map (\<lambda>r. if localRecordType e = Some for_repayment
                                 \<and> localRecordId e = Some (rec_id r)
                              then completeRow now r else r) (repayments db)\<rparr>,
              markResolved e now)"
proof -
  obtain p where p: "parseOrEmpty (providerValue e) = JsonObject p"
    using can by (auto simp: canAutoResolve_def split: if_splits json_doc.splits)
  from named obtain t i where ti: "localRecordType e = Some t" "localRecordId e = Some i"
    "i \<noteq> []"
    by (auto simp: namesStoredRecord_def split: option.splits)
  have same: "\<And>rows :: 'a disbursement_row_scheme list.
      map (\<lambda>r. if rec_id r = i then completeRow now r else r) rows
        = map (\<lambda>r. if i = rec_id r then completeRow now r else r) rows"
    by (rule map_cong) auto
  show ?thesis
  proof (cases "t = for_disbursement")
    case True
    with named ti have ex: "list_ex (\<lambda>r. rec_id r = i) (disbursements db)"
      by (simp add: namesStoredRecord_def)
    show ?thesis
      using ex True
      by (simp add: autoResolveException_def ti p updateWhere_def same)
  next
    case False
    with named ti have rep: "t = for_repayment"
      and ex: "list_ex (\<lambda>r. rec_id r = i) (repayments db)"
      by (auto simp: namesStoredRecord_def split: if_splits)
    show ?thesis
      using ex rep
      by (simp add: autoResolveException_def ti p updateWhere_def same)
  qed
qed


lemma namesStoredRecord_after_step:
  "namesStoredRecord
     (db\<lparr>disbursements := map (\<lambda>r. if p r then completeRow now r else r) (disbursements db),
         repayments := map (\<lambda>r. if q r then completeRow now r else r) (repayments db)\<rparr>) x
   = namesStoredRecord db x"
  by (simp add: namesStoredRecord_def list_ex_complete split: option.splits)

lemma namedBy_Cons:
  "namedBy config (e # es) t i
     \<longleftrightarrow> (canAutoResolve config e \<and> localRecordType e = Some t \<and> localRecordId e = Some i)
         \<or> namedBy config es t i"
  by (simp add: namedBy_def)

lemma complete_twice:
  "map (\<lambda>r. if b (rec_id r) then completeRow now r else r)
     (map (\<lambda>r. if a (rec_id r) then completeRow now r else r) rows)
   = map (\<lambda>r. if a (rec_id r) \<or> b (rec_id r) then completeRow now r else r) rows"
  by (induction rows) (auto simp: completeRow_simps)

lemma autoResolveLoop_run:
  assumes "\<forall>x\<in>set es. canAutoResolve config x \<longrightarrow> namesStoredRecord db x"
  shows "autoResolveLoop config now db es
           = (db\<lparr>disbursements :=
                    map (\<lambda>r. if namedBy config es for_disbursement (rec_id r)
                              then completeRow now r else r) (disbursements db),
                  repayments :=
                    map (\<lambda>r. if namedBy config es for_repayment (rec_id r)
                              then completeRow now r else r) (repayments db)\<rparr>,
              map (\<lambda>x. if canAutoResolve config x then markResolved x now else x) es,
              map (\<lambda>x. markResolved x now) (filter (canAutoResolve config) es))"
  using assms
proof (induction es arbitrary: db)
  case Nil
  show ?case by (simp add: namedBy_def)
next
  case (Cons e es)
  show ?case
  proof (cases "canAutoResolve config e")
    case False
    have rest: "\<forall>x\<in>set es. canAutoResolve config x \<longrightarrow> namesStoredRecord db x"
      using Cons.prems by simp
    show ?thesis
      using False by (simp add: Cons.IH [OF rest] namedBy_Cons)
  next
    case True
    let ?db1 = "db\<lparr>disbursements :=
                    map (\<lambda>r. if localRecordType e = Some for_disbursement
                                 \<and> localRecordId e = Some (rec_id r)
                              then completeRow now r else r) (disbursements db),
                  repayments :=
                    map (\<lambda>r. if localRecordType e = Some for_repayment
                                 \<and> localRecordId e = Some (rec_id r)
                              then completeRow now r else r) (repayments db)\<rparr>"
    have named: "namesStoredRecord db e"
      using Cons.prems True by simp
    have step: "autoResolveException db e now = (?db1, markResolved e now)"
      using autoResolveException_named [OF True named] .
    have rest: "\<forall>x\<in>set es. canAutoResolve config x \<longrightarrow> namesStoredRecord ?db1 x"
      using Cons.prems by (simp add: namesStoredRecord_after_step)
    have twice_d: "map (\<lambda>r. if namedBy config es for_disbursement (rec_id r)
                              then completeRow now r else r)
                     (map (\<lambda>r. if localRecordType e = Some for_disbursement
                                 \<and> localRecordId e = Some (rec_id r)
                              then completeRow now r else r) (disbursements db))
                 = map (\<lambda>r. if namedBy config (e # es) for_disbursement (rec_id r)
                              then completeRow now r else r) (disbursements db)"
      using True
        complete_twice [of "namedBy config es for_disbursement" now
          "\<lambda>i. localRecordType e = Some for_disbursement \<and> localRecordId e = Some i"
          "disbursements db"]
      by (simp add: namedBy_Cons)
    have twice_r: "map (\<lambda>r. if namedBy config es for_repayment (rec_id r)
                              then completeRow now r else r)
                     (map (\<lambda>r. if localRecordType e = Some for_repayment
                                 \<and> localRecordId e = Some (rec_id r)
                              then completeRow now r else r) (repayments db))
                 = map (\<lambda>r. if namedBy config (e # es) for_repayment (rec_id r)
                              then completeRow now r else r) (repayments db)"
      using True
        complete_twice [of "namedBy config es for_repayment" now
          "\<lambda>i. localRecordType e = Some for_repayment \<and> localRecordId e = Some i"
          "repayments db"]
      by (simp add: namedBy_Cons)
    show ?thesis
      using True twice_d twice_r
      by (simp add: step Cons.IH [OF rest])
  qed
qed


lemma statusMismatchException_names_record:
  assumes "r \<in> set (disbursements db)" and "rec_id r \<noteq> []"
  shows "namesStoredRecord db (statusMismatchException tenant newId for_disbursement r providerStatus)"
  using assms by (auto simp: namesStoredRecord_def statusMismatchException_def list_ex_iff)

lemmas reconciliation_eval =
  canAutoResolve_def parseOrEmpty_def statusOrEmpty_def statusMismatchException_def
  normalizeStatus_def statusMap_def toLowerCase_def toLowerChar_def
  DEFAULT_RECONCILIATION_CONFIG_def Let_def

text \<open>
  Claim C9. For a threshold that is not negative, an exception passes \<open>canAutoResolve\<close>
  if and only if its type is \<open>transfer_status\<close>, its discrepancy amount (when set) is at
  most the threshold, and its local status normalizes to \<open>pending\<close> while its provider
  status normalizes to \<open>completed\<close>. In a non-dry run with auto-resolution enabled, over
  exceptions of which those that pass name a stored disbursement or repayment, the run
  completes exactly the named records (\<open>COMPLETED\<close>, \<open>AVAILABLE\<close>, \<open>completedAt = now\<close>)
  and leaves every other record as it was, marks exactly the passing exceptions resolved
  with resolution type \<open>auto_corrected\<close> and leaves every other exception as it was, and
  returns the passing exceptions, so marked, as the auto-resolved list. In a dry run, or
  with auto-resolution disabled, nothing is written and nothing is auto-resolved. The
  same holds of one call of \<open>autoResolveException\<close> on a passing exception.
\<close>

theorem auto_resolution:
  assumes "0 \<le> autoResolveThresholdCents config"
  shows
   "(canAutoResolve config e \<longleftrightarrow>
       etype e = transfer_status \<and>
       (\<forall>c. discrepancyAmountCents e = Some c \<longrightarrow> c \<le> autoResolveThresholdCents config) \<and>
       (\<exists>l. parseOrEmpty (localValue e) = JsonObject l
            \<and> normalizeStatus (statusOrEmpty l) = ''pending'') \<and>
       (\<exists>p. parseOrEmpty (providerValue e) = JsonObject p
            \<and> normalizeStatus (statusOrEmpty p) = ''completed'')) \<and>
    (\<not> dryRun \<and> autoResolveStatusUpdates config
       \<and> (\<forall>x\<in>set es. canAutoResolve config x \<longrightarrow> namesStoredRecord db x) \<longrightarrow>
       autoResolveEligible config dryRun now db es
         = (db\<lparr>disbursements :=
                  map (\<lambda>r. if namedBy config es for_disbursement (rec_id r)
                            then completeRow now r else r) (disbursements db),
                repayments :=
                  map (\<lambda>r. if namedBy config es for_repayment (rec_id r)
                            then completeRow now r else r) (repayments db)\<rparr>,
            map (\<lambda>x. if canAutoResolve config x then markResolved x now else x) es,
            map (\<lambda>x. markResolved x now) (filter (canAutoResolve config) es))) \<and>
    (dryRun \<or> \<not> autoResolveStatusUpdates config \<longrightarrow>
       autoResolveEligible config dryRun now db es = (db, es, [])) \<and>
    (canAutoResolve config e \<and> namesStoredRecord db e \<longrightarrow>
       autoResolveException db e now
         = (db\<lparr>disbursements :=
                  map (\<lambda>r. if localRecordType e = Some for_disbursement
                               \<and> localRecordId e = Some (rec_id r)
                            then completeRow now r else r) (disbursements db),
                repayments :=
                  map (\<lambda>r. if localRecordType e = Some for_repayment
                               \<and> localRecordId e = Some (rec_id r)
                            then completeRow now r else r) (repayments db)\<rparr>,
            markResolved e now)) \<and>
    estatus (markResolved e now) = st_resolved \<and>
    resolutionType (markResolved e now) = Some auto_corrected \<and>
    resolvedAt (markResolved e now) = Some now \<and>
    status (completeRow now r) = COMPLETED \<and>
    availabilityState (completeRow now r) = AVAILABLE \<and>
    completedAt (completeRow now r) = Some now"
proof -
  have run: "\<not> dryRun \<and> autoResolveStatusUpdates config
       \<and> (\<forall>x\<in>set es. canAutoResolve config x \<longrightarrow> namesStoredRecord db x) \<longrightarrow>
       autoResolveEligible config dryRun now db es
         = (db\<lparr>disbursements :=
                  map (\<lambda>r. if namedBy config es for_disbursement (rec_id r)
                            then completeRow now r else r) (disbursements db),
                repayments :=
                  map (\<lambda>r. if namedBy config es for_repayment (rec_id r)
                            then completeRow now r else r) (repayments db)\<rparr>,
            map (\<lambda>x. if canAutoResolve config x then markResolved x now else x) es,
            map (\<lambda>x. markResolved x now) (filter (canAutoResolve config) es))"
    using autoResolveLoop_run [of es config db now] by (simp add: autoResolveEligible_def)
  have off: "dryRun \<or> \<not> autoResolveStatusUpdates config \<longrightarrow>
       autoResolveEligible config dryRun now db es = (db, es, [])"
    by (auto simp: autoResolveEligible_def)
  have one: "canAutoResolve config e \<and> namesStoredRecord db e \<longrightarrow>
       autoResolveException db e now
         = (db\<lparr>disbursements :=
                  map (\<lambda>r. if localRecordType e = Some for_disbursement
                               \<and> localRecordId e = Some (rec_id r)
                            then completeRow now r else r) (disbursements db),
                repayments :=
                  map (\<lambda>r. if localRecordType e = Some for_repayment
                               \<and> localRecordId e = Some (rec_id r)
                            then completeRow now r else r) (repayments db)\<rparr>,
            markResolved e now)"
    using autoResolveException_named by blast
  have marks: "estatus (markResolved e now) = st_resolved \<and>
    resolutionType (markResolved e now) = Some auto_corrected \<and>
    resolvedAt (markResolved e now) = Some now"
    by (simp add: markResolved_def)
  have row: "status (completeRow now r) = COMPLETED \<and>
    availabilityState (completeRow now r) = AVAILABLE \<and>
    completedAt (completeRow now r) = Some now"
    by (simp add: completeRow_def)
  show ?thesis
    using canAutoResolve_iff [OF assms, of e] run off one marks row by blast
qed


theorem auto_resolution_witness:
  "0 \<le> autoResolveThresholdCents DEFAULT_RECONCILIATION_CONFIG \<and>
   canAutoResolve DEFAULT_RECONCILIATION_CONFIG pendingMismatch \<and>
   \<not> canAutoResolve DEFAULT_RECONCILIATION_CONFIG failedMismatch \<and>
   namesStoredRecord reconDb pendingMismatch \<and>
   autoResolveEligible DEFAULT_RECONCILIATION_CONFIG False 3000 reconDb
       [pendingMismatch, failedMismatch]
     = (reconDb\<lparr>disbursements := [completeRow 3000 pendingRow, failedRow]\<rparr>,
        [markResolved pendingMismatch 3000, failedMismatch],
        [markResolved pendingMismatch 3000]) \<and>
   status (completeRow 3000 pendingRow) = COMPLETED \<and>
   availabilityState (completeRow 3000 pendingRow) = AVAILABLE \<and>
   completedAt (completeRow 3000 pendingRow) = Some 3000 \<and>
   estatus (markResolved pendingMismatch 3000) = st_resolved \<and>
   resolutionType (markResolved pendingMismatch 3000) = Some auto_corrected \<and>
   status failedRow = FAILED \<and> estatus failedMismatch = st_open"
proof -
  let ?cfg = DEFAULT_RECONCILIATION_CONFIG
  have thr: "0 \<le> autoResolveThresholdCents ?cfg"
    by (simp add: DEFAULT_RECONCILIATION_CONFIG_def)
  have enabled: "autoResolveStatusUpdates ?cfg"
    by (simp add: DEFAULT_RECONCILIATION_CONFIG_def)
  have can: "canAutoResolve ?cfg pendingMismatch"
    by (simp add: pendingMismatch_def pendingRow_def reconciliation_eval)
  have cannot: "\<not> canAutoResolve ?cfg failedMismatch"
    by (simp add: failedMismatch_def failedRow_def reconciliation_eval)
  have names: "namesStoredRecord reconDb pendingMismatch"
    by (simp add: namesStoredRecord_def pendingMismatch_def statusMismatchException_def
          reconDb_def pendingRow_def)
  have refs: "localRecordType pendingMismatch = Some for_disbursement"
    "localRecordId pendingMismatch = Some ''disb-1''"
    "rec_id pendingRow = ''disb-1''" "rec_id failedRow = ''disb-2''"
    "disbursements reconDb = [pendingRow, failedRow]" "repayments reconDb = []"
    by (simp_all add: pendingMismatch_def statusMismatchException_def pendingRow_def
          failedRow_def reconDb_def)
  note T = auto_resolution [OF thr, of pendingMismatch False
      "[pendingMismatch, failedMismatch]" reconDb 3000 pendingRow]
  have hyp: "\<forall>x\<in>set [pendingMismatch, failedMismatch].
               canAutoResolve ?cfg x \<longrightarrow> namesStoredRecord reconDb x"
    using names cannot by simp
  from T enabled hyp
  have run: "autoResolveEligible ?cfg False 3000 reconDb [pendingMismatch, failedMismatch]
         = (reconDb\<lparr>disbursements :=
                  map (\<lambda>r. if namedBy ?cfg [pendingMismatch, failedMismatch] for_disbursement
                                 (rec_id r)
                            then completeRow 3000 r else r) (disbursements reconDb),
                repayments :=
                  map (\<lambda>r. if namedBy ?cfg [pendingMismatch, failedMismatch] for_repayment
                                 (rec_id r)
                            then completeRow 3000 r else r) (repayments reconDb)\<rparr>,
            map (\<lambda>x. if canAutoResolve ?cfg x then markResolved x 3000 else x)
              [pendingMismatch, failedMismatch],
            map (\<lambda>x. markResolved x 3000)
              (filter (canAutoResolve ?cfg) [pendingMismatch, failedMismatch]))"
    by blast
  have eq: "autoResolveEligible ?cfg False 3000 reconDb [pendingMismatch, failedMismatch]
     = (reconDb\<lparr>disbursements := [completeRow 3000 pendingRow, failedRow]\<rparr>,
        [markResolved pendingMismatch 3000, failedMismatch],
        [markResolved pendingMismatch 3000])"
    unfolding run using can cannot
    by (simp add: namedBy_def refs)
  from T have vals: "status (completeRow 3000 pendingRow) = COMPLETED \<and>
   availabilityState (completeRow 3000 pendingRow) = AVAILABLE \<and>
   completedAt (completeRow 3000 pendingRow) = Some 3000 \<and>
   estatus (markResolved pendingMismatch 3000) = st_resolved \<and>
   resolutionType (markResolved pendingMismatch 3000) = Some auto_corrected"
    by blast
  have rest: "status failedRow = FAILED \<and> estatus failedMismatch = st_open"
    by (simp add: failedRow_def failedMismatch_def statusMismatchException_def)
  show ?thesis
    using thr can cannot names eq vals rest by blast
qed


subsection \<open>Webhook signature check\<close>

text \<open>
  Claim C10. A request that omits the \<^verbatim>\<open>moov-signature\<close> or the \<^verbatim>\<open>moov-timestamp\<close> header
  is handled exactly as the parse-and-dispatch step handles it, whatever the secret and
  the digest: no verification runs. When both headers are present (and not empty), the
  signature is verified first: a verification that throws or answers false rejects the
  request and nothing is dispatched.
\<close>

theorem webhook_verification_only_with_headers:
  "(signatureHeader request = None \<or> timestampHeader request = None \<longrightarrow>
      moovWebhook e hmac jsonParse db request now = parseAndProcess jsonParse db request now) \<and>
   (truthy (signatureHeader request) \<and> truthy (timestampHeader request) \<longrightarrow>
      moovWebhook e hmac jsonParse db request now =
        (case verifySignature e hmac (rawBody request)
                (the (signatureHeader request)) (the (timestampHeader request)) of
           Inl err \<Rightarrow> (db, Thrown err)
         | Inr isValid \<Rightarrow>
             if isValid then parseAndProcess jsonParse db request now
             else (db, Thrown INVALID_REQUEST)))"
  by (auto simp: moovWebhook_def truthy_def split: sum.splits)

theorem webhook_verification_only_with_headers_witness:
  "signatureHeader unsignedRequest = None \<and>
   moovWebhook prodEnv (\<lambda>secret text. ''0f'') (\<lambda>text. Some completedEvent)
      pendingDb unsignedRequest 1000 = (completedDb, Received) \<and>
   map status (disbursements completedDb) = [COMPLETED] \<and>
   moovWebhook prodEnv (\<lambda>secret text. ''0f'') (\<lambda>text. Some completedEvent)
      pendingDb (unsignedRequest\<lparr>signatureHeader := Some ''00'', timestampHeader := Some ''1''\<rparr>)
      1000 = (pendingDb, Thrown INVALID_REQUEST)"
proof -
  let ?hmac = "\<lambda>secret text :: string. ''0f''"
  let ?parse = "\<lambda>text :: string. Some completedEvent"
  let ?signed = "unsignedRequest\<lparr>signatureHeader := Some ''00'', timestampHeader := Some ''1''\<rparr>"
  have unsigned: "signatureHeader unsignedRequest = None"
    by (simp add: unsignedRequest_def)
  have run: "parseAndProcess ?parse pendingDb unsignedRequest 1000 = (completedDb, Received)"
    by (simp add: parseAndProcess_def parseEvent_def processEvent_def handleTransferEvent_def
          MOOV_TRANSFER_STATUS_MAP_def completedEvent_def unsignedRequest_def truthy_def
          completedDb_def transferUpdate_def processStatusUpdate_def
          updateDisbursementStatus_def updateWhere_def pendingDb_def keep_def Let_def)
  have st: "map status (disbursements completedDb) = [COMPLETED]"
    by (simp add: ingestion_eval)
  have both: "truthy (signatureHeader ?signed) \<and> truthy (timestampHeader ?signed)"
    by (simp add: truthy_def)
  have bad: "verifySignature prodEnv ?hmac (rawBody unsignedRequest) ''00'' ''1'' = Inr False"
    by (simp add: verifySignature_def prodEnv_def truthy_def Let_def)
  from webhook_verification_only_with_headers [of unsignedRequest prodEnv ?hmac ?parse pendingDb 1000] unsigned run
  have a: "moovWebhook prodEnv ?hmac ?parse pendingDb unsignedRequest 1000 = (completedDb, Received)"
    by simp
  from webhook_verification_only_with_headers [of ?signed prodEnv ?hmac ?parse pendingDb 1000] both
  have b: "moovWebhook prodEnv ?hmac ?parse pendingDb ?signed 1000 = (pendingDb, Thrown INVALID_REQUEST)"
    by (simp add: bad)
  show ?thesis using unsigned a st b by blast
qed


end
